theory Spec2Isabelle
  imports Main "HOL-Library.Word"
begin

unbundle bit_operations_syntax

section \<open>Data model (src/main.go)\<close>

text \<open>
  \<^verbatim>\<open>primitive.ObjectID\<close> is the driver's \<^verbatim>\<open>[12]byte\<close>; \<^verbatim>\<open>time.Time\<close> is an instant,
  counted here from Go's zero time (so \<^verbatim>\<open>time.Time{}\<close> is 0); a \<^verbatim>\<open>float64\<close> is its
  IEEE-754 bit pattern: the program only copies these values, it never computes on them.
\<close>

type_synonym byte = "8 word"
type_synonym ObjectID = "byte list"
type_synonym Time = int
type_synonym float64 = "64 word"

definition NilObjectID :: ObjectID where
  "NilObjectID = [0, 0, 0, 0, 0, 0, 0, 0, 0, 0, 0, 0]"

text \<open>\<^verbatim>\<open>type Measurement struct { ID; Timestamp; CPU; RAM }\<close>, lines 26-31.\<close>

record Measurement =
  ID :: ObjectID
  Timestamp :: Time
  CPU :: float64
  RAM :: float64

text \<open>The zero value of the struct, what \<^verbatim>\<open>var measurement Measurement\<close> declares.\<close>

definition zero_Measurement :: Measurement where
  "zero_Measurement = \<lparr>ID = NilObjectID, Timestamp = 0, CPU = 0, RAM = 0\<rparr>"

text \<open>
  Errors are values. The first three are those of \<^verbatim>\<open>ObjectIDFromHex\<close> and
  \<^verbatim>\<open>hex.Decode\<close>, \<open>ErrNoDocuments\<close> is \<^verbatim>\<open>mongo.ErrNoDocuments\<close>, \<open>DuplicateKey\<close>
  and \<open>ImmutableField\<close> are the server's write errors on \<^verbatim>\<open>_id\<close>, and \<open>Failure\<close>
  is any other failure the environment injects (connectivity, timeout, decoding), with its
  message.
\<close>

datatype error =
    ErrInvalidHex
  | InvalidByteError char
  | ErrLength
  | ErrNoDocuments
  | DuplicateKey
  | ImmutableField
  | Failure string

section \<open>The driver's object ids\<close>

text \<open>
  \<^verbatim>\<open>encoding/hex\<close>: a digit is 0-9, a-f or A-F; \<^verbatim>\<open>Decode\<close> reads the source two
  characters at a time and writes \<^verbatim>\<open>(a << 4) | b\<close>; an odd character left over is
  \<^verbatim>\<open>InvalidByteError\<close> when it is no digit and \<^verbatim>\<open>ErrLength\<close> otherwise.
\<close>

definition fromHexChar :: "char \<Rightarrow> byte option" where
  "fromHexChar c =
     (let n = (of_char c :: nat) in
      if 48 \<le> n \<and> n \<le> 57 then Some (of_nat (n - 48))
      else if 97 \<le> n \<and> n \<le> 102 then Some (of_nat (n - 97 + 10))
      else if 65 \<le> n \<and> n \<le> 70 then Some (of_nat (n - 65 + 10))
      else None)"

fun hex_Decode :: "string \<Rightarrow> error + byte list" where
  "hex_Decode [] = Inr []"
| "hex_Decode [p] = (case fromHexChar p of None \<Rightarrow> Inl (InvalidByteError p) | Some a \<Rightarrow> Inl ErrLength)"
| "hex_Decode (p # q # src) =
     (case fromHexChar p of
        None \<Rightarrow> Inl (InvalidByteError p)
      | Some a \<Rightarrow>
          (case fromHexChar q of
             None \<Rightarrow> Inl (InvalidByteError q)
           | Some b \<Rightarrow>
               (case hex_Decode src of
                  Inl err \<Rightarrow> Inl err
                | Inr dst \<Rightarrow> Inr ((push_bit 4 a OR b) # dst))))"

text \<open>
  \<^verbatim>\<open>primitive.ObjectIDFromHex\<close>: the string must have 24 characters and decode as hex.
  A well-formed store id is a string on which it returns no error.
\<close>

definition ObjectIDFromHex :: "string \<Rightarrow> error + ObjectID" where
  "ObjectIDFromHex s =
     (if length s \<noteq> 24 then Inl ErrInvalidHex
      else case hex_Decode s of Inl err \<Rightarrow> Inl err | Inr oid \<Rightarrow> Inr oid)"

section \<open>The world outside the handlers\<close>

text \<open>
  What the process writes with the \<^verbatim>\<open>log\<close> package (the \<^verbatim>\<open>fmt.Printf\<close> lines to
  standard output are not modelled).
\<close>

datatype log_entry =
    Log_measurement Measurement
  | Log_error string error

text \<open>
  The world a handler runs in: the documents of collection \<^verbatim>\<open>resource-mon\<close> in their
  natural (insertion) order, the number of driver clients that were connected with
  \<^verbatim>\<open>mongo.Connect\<close> and not disconnected since, and the log.
\<close>

record world =
  docs :: "Measurement list"
  clients :: nat
  logged :: "log_entry list"

text \<open>
  What one run of a handler gets from outside: whether \<^verbatim>\<open>mongo.Connect\<close>,
  \<^verbatim>\<open>client.Ping\<close>, the collection operation (\<^verbatim>\<open>InsertOne\<close>, \<^verbatim>\<open>Find\<close>,
  \<^verbatim>\<open>FindOne\<close>, \<^verbatim>\<open>ReplaceOne\<close>, \<^verbatim>\<open>DeleteOne\<close>), \<^verbatim>\<open>cur.All\<close> and
  \<^verbatim>\<open>client.Disconnect\<close> fail for a reason of the network or the server, the id
  \<^verbatim>\<open>primitive.NewObjectID()\<close> would generate, and \<^verbatim>\<open>time.Now()\<close>.
\<close>

record env =
  connect_err :: "error option"
  ping_err :: "error option"
  op_err :: "error option"
  all_err :: "error option"
  disconnect_err :: "error option"
  new_id :: ObjectID
  now :: Time

text \<open>
  A function either returns (a value and the world after it) or calls \<^verbatim>\<open>log.Fatal\<close>,
  which ends the process; \<open>Exited\<close> keeps the error and what the function had written
  to the response before.
\<close>

datatype 'a outcome =
    Returned 'a world
  | Exited error "'a option"

text \<open>
  The body of a response: none (\<^verbatim>\<open>c.Status\<close>), \<^verbatim>\<open>gin.H{"error": "..."}\<close> with a
  literal, \<^verbatim>\<open>gin.H{"error": err.Error()}\<close>, one Measurement, and what \<^verbatim>\<open>c.JSON\<close>
  renders for a slice of Measurement: \<^verbatim>\<open>encoding/json\<close> writes a nil slice as
  \<^verbatim>\<open>null\<close> and any other slice as an array.
\<close>

datatype body =
    Empty
  | H_error string
  | H_error_of error
  | JSON_Measurement Measurement
  | JSON_null
  | JSON_array "Measurement list"

datatype reply = Reply nat body

fun status :: "reply \<Rightarrow> nat" where
  "status (Reply code b) = code"

fun status_of :: "reply outcome \<Rightarrow> nat option" where
  "status_of (Returned r w) = Some (status r)"
| "status_of (Exited err r) = None"

text \<open>
  A Go slice is nil (\<open>None\<close>) or has elements (\<open>Some\<close>); \<^verbatim>\<open>json.Marshal\<close> of it.
\<close>

fun marshal_slice :: "Measurement list option \<Rightarrow> body" where
  "marshal_slice None = JSON_null"
| "marshal_slice (Some ms) = JSON_array ms"

section \<open>The collection, as the driver and the server behave\<close>

text \<open>
  The document written for a Measurement: the tag \<^verbatim>\<open>bson:"_id,omitempty"\<close> leaves
  \<^verbatim>\<open>_id\<close> out when the ID is the zero ObjectID, and \<^verbatim>\<open>InsertOne\<close> then adds a newly
  generated one; a non-zero ID is written as it is.
\<close>

definition insert_id :: "env \<Rightarrow> Measurement \<Rightarrow> ObjectID" where
  "insert_id e m = (if ID m = NilObjectID then new_id e else ID m)"

definition has_id :: "ObjectID \<Rightarrow> Measurement list \<Rightarrow> bool" where
  "has_id oid ds = (find (\<lambda>d. ID d = oid) ds \<noteq> None)"

text \<open>\<^verbatim>\<open>InsertOne\<close>: the server refuses a second document with the same \<^verbatim>\<open>_id\<close>.\<close>

definition InsertOne :: "env \<Rightarrow> Measurement \<Rightarrow> world \<Rightarrow> (error + ObjectID) \<times> world" where
  "InsertOne e m w =
     (case op_err e of
        Some err \<Rightarrow> (Inl err, w)
      | None \<Rightarrow>
          if has_id (insert_id e m) (docs w) then (Inl DuplicateKey, w)
          else (Inr (insert_id e m), w\<lparr>docs := docs w @ [m\<lparr>ID := insert_id e m\<rparr>]\<rparr>))"

text \<open>\<^verbatim>\<open>Find(ctx, bson.M{})\<close>: a cursor over every document.\<close>

definition Find :: "env \<Rightarrow> world \<Rightarrow> error + Measurement list" where
  "Find e w = (case op_err e of Some err \<Rightarrow> Inl err | None \<Rightarrow> Inr (docs w))"

text \<open>
  \<^verbatim>\<open>cur.All(ctx, &measurements)\<close> on the nil slice \<^verbatim>\<open>var measurements []Measurement\<close>:
  it appends one element per document and sets the slice to what it appended, so with no
  document the slice stays nil.
\<close>

definition Cursor_All :: "env \<Rightarrow> Measurement list \<Rightarrow> error + Measurement list option" where
  "Cursor_All e cur =
     (case all_err e of
        Some err \<Rightarrow> Inl err
      | None \<Rightarrow> Inr (if cur = [] then None else Some cur))"

text \<open>\<^verbatim>\<open>FindOne(nil, bson.M{"_id": objectID}).Decode(&measurement)\<close>.\<close>

definition FindOne :: "env \<Rightarrow> ObjectID \<Rightarrow> world \<Rightarrow> error + Measurement" where
  "FindOne e oid w =
     (case op_err e of
        Some err \<Rightarrow> Inl err
      | None \<Rightarrow>
          (case find (\<lambda>d. ID d = oid) (docs w) of
             None \<Rightarrow> Inl ErrNoDocuments
           | Some d \<Rightarrow> Inr d))"

text \<open>
  \<^verbatim>\<open>ReplaceOne(nil, bson.M{"_id": objectID}, measurement)\<close>, no upsert: the first
  matching document is replaced and keeps its \<^verbatim>\<open>_id\<close>; a replacement that carries
  another \<^verbatim>\<open>_id\<close> is a write error; with no match nothing is written and the result
  (a matched count of 0) is no error.
\<close>

fun replace_first :: "ObjectID \<Rightarrow> Measurement \<Rightarrow> Measurement list \<Rightarrow> Measurement list" where
  "replace_first oid m [] = []"
| "replace_first oid m (d # ds) =
     (if ID d = oid then m\<lparr>ID := oid\<rparr> # ds else d # replace_first oid m ds)"

definition ReplaceOne :: "env \<Rightarrow> ObjectID \<Rightarrow> Measurement \<Rightarrow> world \<Rightarrow> (error + nat) \<times> world" where
  "ReplaceOne e oid m w =
     (case op_err e of
        Some err \<Rightarrow> (Inl err, w)
      | None \<Rightarrow>
          if \<not> has_id oid (docs w) then (Inr 0, w)
          else if ID m \<noteq> NilObjectID \<and> ID m \<noteq> oid then (Inl ImmutableField, w)
          else (Inr 1, w\<lparr>docs := replace_first oid m (docs w)\<rparr>))"

text \<open>\<^verbatim>\<open>DeleteOne(nil, bson.M{"_id": objectID})\<close>: the first match goes, if there is one.\<close>

fun delete_first :: "ObjectID \<Rightarrow> Measurement list \<Rightarrow> Measurement list" where
  "delete_first oid [] = []"
| "delete_first oid (d # ds) = (if ID d = oid then ds else d # delete_first oid ds)"

definition DeleteOne :: "env \<Rightarrow> ObjectID \<Rightarrow> world \<Rightarrow> (error + nat) \<times> world" where
  "DeleteOne e oid w =
     (case op_err e of
        Some err \<Rightarrow> (Inl err, w)
      | None \<Rightarrow>
          if has_id oid (docs w) then (Inr 1, w\<lparr>docs := delete_first oid (docs w)\<rparr>)
          else (Inr 0, w))"

section \<open>The program\<close>

text \<open>
  \<^verbatim>\<open>getMongoCollection\<close>, lines 135-155: connect, ping, return the collection. The
  client it connects is never disconnected, here or by a caller.
\<close>

definition getMongoCollection :: "env \<Rightarrow> world \<Rightarrow> (error + unit) \<times> world" where
  "getMongoCollection e w =
     (case connect_err e of
        Some err \<Rightarrow> (Inl err, w)
      | None \<Rightarrow>
          (case ping_err e of
             Some err \<Rightarrow> (Inl err, w\<lparr>clients := clients w + 1\<rparr>)
           | None \<Rightarrow> (Inr (), w\<lparr>clients := clients w + 1\<rparr>)))"

text \<open>
  \<^verbatim>\<open>getMeasurements\<close>, lines 67-104. The deferred function disconnects the client and
  calls \<^verbatim>\<open>log.Fatal\<close> when that fails, after the response was written.
\<close>

definition getMeasurements :: "env \<Rightarrow> world \<Rightarrow> reply outcome" where
  "getMeasurements e w =
     (case connect_err e of
        Some err \<Rightarrow> Returned (Reply 500 (H_error ''Failed to connect to MongoDB'')) w
      | None \<Rightarrow>
          (let w1 = w\<lparr>clients := clients w + 1\<rparr>;
               r = (case Find e w1 of
                      Inl err \<Rightarrow> Reply 500 (H_error ''Failed to retrieve measurements'')
                    | Inr cur \<Rightarrow>
                        (case Cursor_All e cur of
                           Inl err \<Rightarrow> Reply 500 (H_error ''Failed to decode measurements'')
                         | Inr measurements \<Rightarrow> Reply 200 (marshal_slice measurements)))
           in case disconnect_err e of
                Some err \<Rightarrow> Exited err (Some r)
              | None \<Rightarrow> Returned r (w1\<lparr>clients := clients w1 - 1\<rparr>)))"

text \<open>
  \<^verbatim>\<open>createMeasurement\<close>, lines 115-134. The second argument is what
  \<^verbatim>\<open>c.ShouldBindJSON(&measurement)\<close> gives for the request's body: an error, or the
  struct it filled. The struct has no \<^verbatim>\<open>json\<close> tags, so \<^verbatim>\<open>encoding/json\<close> fills
  each field from the key of its name (\<^verbatim>\<open>ID\<close>, \<^verbatim>\<open>Timestamp\<close>, \<^verbatim>\<open>CPU\<close>, \<^verbatim>\<open>RAM\<close>,
  in any letter case, so \<^verbatim>\<open>"id"\<close> too); a field whose key is missing keeps its zero
  value. The ID is read by the ObjectID's own \<^verbatim>\<open>UnmarshalJSON\<close>, from a string of 24
  hex digits, and nothing between the binding and \<^verbatim>\<open>InsertOne\<close> resets it.
\<close>

definition createMeasurement :: "env \<Rightarrow> error + Measurement \<Rightarrow> world \<Rightarrow> reply outcome" where
  "createMeasurement e bound w =
     (case bound of
        Inl err \<Rightarrow> Returned (Reply 400 (H_error_of err)) w
      | Inr measurement \<Rightarrow>
          (case getMongoCollection e w of
             (Inl err, w1) \<Rightarrow> Exited err None
           | (Inr collection, w1) \<Rightarrow>
               (case InsertOne e measurement w1 of
                  (Inl err, w2) \<Rightarrow> Returned (Reply 500 (H_error_of err)) w2
                | (Inr r, w2) \<Rightarrow> Returned (Reply 201 Empty) w2)))"

text \<open>
  \<^verbatim>\<open>getMeasurement\<close>, lines 165-192; \<open>param_id\<close> is \<^verbatim>\<open>c.Param("id")\<close>.
  \<^verbatim>\<open>log.Println(measurement)\<close> runs before the error is looked at, on the zero struct
  when nothing was decoded.
\<close>

definition getMeasurement :: "env \<Rightarrow> string \<Rightarrow> world \<Rightarrow> reply outcome" where
  "getMeasurement e param_id w =
     (case ObjectIDFromHex param_id of
        Inl err \<Rightarrow> Returned (Reply 400 (H_error ''Invalid ID'')) w
      | Inr objectID \<Rightarrow>
          (case getMongoCollection e w of
             (Inl err, w1) \<Rightarrow> Exited err None
           | (Inr collection, w1) \<Rightarrow>
               (case FindOne e objectID w1 of
                  Inl err \<Rightarrow>
                    (let w2 = w1\<lparr>logged := logged w1 @ [Log_measurement zero_Measurement]\<rparr>
                     in if err = ErrNoDocuments then Returned (Reply 404 Empty) w2
                        else Returned (Reply 500 (H_error_of err)) w2)
                | Inr measurement \<Rightarrow>
                    Returned (Reply 200 (JSON_Measurement measurement))
                      (w1\<lparr>logged := logged w1 @ [Log_measurement measurement]\<rparr>))))"

text \<open>
  \<^verbatim>\<open>updateMeasurement\<close>, lines 204-227: the id, then the collection, then the body.
\<close>

definition updateMeasurement :: "env \<Rightarrow> string \<Rightarrow> error + Measurement \<Rightarrow> world \<Rightarrow> reply outcome" where
  "updateMeasurement e param_id bound w =
     (case ObjectIDFromHex param_id of
        Inl err \<Rightarrow> Returned (Reply 400 (H_error ''Invalid ID'')) w
      | Inr objectID \<Rightarrow>
          (case getMongoCollection e w of
             (Inl err, w1) \<Rightarrow> Exited err None
           | (Inr collection, w1) \<Rightarrow>
               (case bound of
                  Inl err \<Rightarrow> Returned (Reply 400 (H_error_of err)) w1
                | Inr measurement \<Rightarrow>
                    (case ReplaceOne e objectID measurement w1 of
                       (Inl err, w2) \<Rightarrow> Returned (Reply 500 (H_error_of err)) w2
                     | (Inr r, w2) \<Rightarrow> Returned (Reply 200 Empty) w2))))"

text \<open>\<^verbatim>\<open>deleteMeasurement\<close>, lines 235-254.\<close>

definition deleteMeasurement :: "env \<Rightarrow> string \<Rightarrow> world \<Rightarrow> reply outcome" where
  "deleteMeasurement e param_id w =
     (case ObjectIDFromHex param_id of
        Inl err \<Rightarrow> Returned (Reply 400 (H_error ''Invalid ID'')) w
      | Inr objectID \<Rightarrow>
          (case getMongoCollection e w of
             (Inl err, w1) \<Rightarrow> Exited err None
           | (Inr collection, w1) \<Rightarrow>
               (case DeleteOne e objectID w1 of
                  (Inl err, w2) \<Rightarrow> Returned (Reply 500 (H_error_of err)) w2
                | (Inr r, w2) \<Rightarrow> Returned (Reply 200 Empty) w2)))"

text \<open>
  \<^verbatim>\<open>storeMQTTMeasurement\<close>, lines 392-403: the error it returns is \<open>Some\<close>, nil is
  \<open>None\<close>.
\<close>

definition storeMQTTMeasurement :: "env \<Rightarrow> Measurement \<Rightarrow> world \<Rightarrow> error option outcome" where
  "storeMQTTMeasurement e measurement w =
     (case getMongoCollection e w of
        (Inl err, w1) \<Rightarrow> Exited err None
      | (Inr collection, w1) \<Rightarrow>
          (case InsertOne e measurement w1 of
             (Inl err, w2) \<Rightarrow> Returned (Some err) w2
           | (Inr r, w2) \<Rightarrow> Returned None w2))"

text \<open>
  \<^verbatim>\<open>messageHandler\<close>, lines 372-390. The second argument is what
  \<^verbatim>\<open>json.Unmarshal(msg.Payload(), &measurement)\<close> gives: an error, or the struct it
  filled.
\<close>

definition messageHandler :: "env \<Rightarrow> error + Measurement \<Rightarrow> world \<Rightarrow> unit outcome" where
  "messageHandler e decoded w =
     (case decoded of
        Inl err \<Rightarrow> Returned () (w\<lparr>logged := logged w @ [Log_error ''Error parsing JSON: '' err]\<rparr>)
      | Inr measurement \<Rightarrow>
          (case storeMQTTMeasurement e (measurement\<lparr>Timestamp := now e\<rparr>) w of
             Exited err r \<Rightarrow> Exited err None
           | Returned (Some err) w1 \<Rightarrow>
               Returned () (w1\<lparr>logged := logged w1 @ [Log_error ''Error storing measurement: '' err]\<rparr>)
           | Returned None w1 \<Rightarrow> Returned () w1))"

text \<open>
  The subscription of \<^verbatim>\<open>runMQTT\<close> (lines 337 and 348): the client calls
  \<^verbatim>\<open>messageHandler\<close> once for each message delivered on the topic, one after the other,
  for as long as the process lives. Each message comes with the environment its handling
  meets.
\<close>

fun deliver :: "(env \<times> (error + Measurement)) list \<Rightarrow> world \<Rightarrow> unit outcome" where
  "deliver [] w = Returned () w"
| "deliver ((e, decoded) # msgs) w =
     (case messageHandler e decoded w of
        Exited err r \<Rightarrow> Exited err r
      | Returned u w1 \<Rightarrow> deliver msgs w1)"

section \<open>Concrete runs\<close>

text \<open>
  An environment in which nothing fails, one in which the server does not answer the ping
  of \<^verbatim>\<open>getMongoCollection\<close>, one in which the collection operation fails, and one in
  which disconnecting fails.
\<close>

definition e_ok :: env where
  "e_ok = \<lparr>connect_err = None, ping_err = None, op_err = None, all_err = None,
            disconnect_err = None,
            new_id = [0x65, 0x01, 0x02, 0x03, 0x04, 0x05, 0x06, 0x07, 0x08, 0x09, 0x0a, 0x0b],
            now = 1700000000\<rparr>"

definition e_unreachable :: env where
  "e_unreachable = e_ok\<lparr>ping_err := Some (Failure ''server selection error'')\<rparr>"

definition e_op_fails :: env where
  "e_op_fails = e_ok\<lparr>op_err := Some (Failure ''connection reset by peer'')\<rparr>"

definition e_disconnect_fails :: env where
  "e_disconnect_fails = e_ok\<lparr>disconnect_err := Some (Failure ''context deadline exceeded'')\<rparr>"

text \<open>
  A bound body without an id (cpu 10.0, ram 20.0 as bit patterns), the same body with an id,
  the id as a path parameter and decoded, and two worlds: an empty collection and one
  holding one document under another id.
\<close>

definition m_no_id :: Measurement where
  "m_no_id = \<lparr>ID = NilObjectID, Timestamp = 1600000000,
               CPU = 0x4024000000000000, RAM = 0x4034000000000000\<rparr>"

definition oid_a :: ObjectID where
  "oid_a = [0x64, 0xb7, 0xf0, 0xa1, 0xc2, 0xd3, 0xe4, 0xf5, 0xa6, 0xb7, 0xc8, 0xd9]"

definition hex_a :: string where
  "hex_a = ''64b7f0a1c2d3e4f5a6b7c8d9''"

definition m_with_id :: Measurement where
  "m_with_id = m_no_id\<lparr>ID := oid_a\<rparr>"

definition w_empty :: world where
  "w_empty = \<lparr>docs = [], clients = 0, logged = []\<rparr>"

definition w_one :: world where
  "w_one = \<lparr>docs = [\<lparr>ID = [0x60, 0, 0, 0, 0, 0, 0, 0, 0, 0, 0, 1], Timestamp = 1500000000,
                       CPU = 0x4042C00000000000, RAM = 0x404F0CCCCCCCCCCD\<rparr>],
             clients = 0, logged = []\<rparr>"

text \<open>The world a run left behind, if the process is still there.\<close>

fun world_of :: "'a outcome \<Rightarrow> world option" where
  "world_of (Returned r w) = Some w"
| "world_of (Exited err r) = None"

section \<open>Shared facts\<close>

lemma hex_a_decodes: "ObjectIDFromHex hex_a = Inr oid_a"
  by (simp add: hex_a_def oid_a_def ObjectIDFromHex_def fromHexChar_def)

lemma has_id_iff: "has_id oid ds \<longleftrightarrow> oid \<in> ID ` set ds"
  by (induction ds) (auto simp: has_id_def)

lemma getMongoCollection_ok:
  "connect_err e = None \<Longrightarrow> ping_err e = None \<Longrightarrow>
   getMongoCollection e w = (Inr (), w\<lparr>clients := clients w + 1\<rparr>)"
  by (simp add: getMongoCollection_def)

lemma getMongoCollection_fails:
  "connect_err e \<noteq> None \<or> ping_err e \<noteq> None \<Longrightarrow> \<exists>err w1. getMongoCollection e w = (Inl err, w1)"
  by (auto simp: getMongoCollection_def split: option.splits)

lemma InsertOne_fresh:
  "op_err e = None \<Longrightarrow> insert_id e m \<notin> ID ` set (docs w) \<Longrightarrow>
   InsertOne e m w = (Inr (insert_id e m), w\<lparr>docs := docs w @ [m\<lparr>ID := insert_id e m\<rparr>]\<rparr>)"
  by (simp add: InsertOne_def has_id_iff)

lemma hex_Decode_length: "hex_Decode s = Inr bs \<Longrightarrow> length s = 2 * length bs"
  by (induction s arbitrary: bs rule: hex_Decode.induct) (auto split: option.splits sum.splits)

lemma ObjectIDFromHex_length: "ObjectIDFromHex s = Inr oid \<Longrightarrow> length s = 24 \<and> length oid = 12"
  by (auto simp: ObjectIDFromHex_def dest: hex_Decode_length split: if_splits sum.splits)

lemma hex_Decode_digits:
  "\<not> isl (hex_Decode s) \<longleftrightarrow> even (length s) \<and> list_all (\<lambda>c. fromHexChar c \<noteq> None) s"
proof (induction s rule: hex_Decode.induct)
  case 1
  show ?case by simp
next
  case (2 p)
  show ?case by (simp split: option.splits)
next
  case (3 p q src)
  show ?case
  proof (cases "fromHexChar p")
    case None
    then show ?thesis by simp
  next
    case a: (Some a)
    show ?thesis
    proof (cases "fromHexChar q")
      case None
      with a show ?thesis by simp
    next
      case b: (Some b)
      from "3.IH" [OF a b] a b show ?thesis
        by (cases "hex_Decode src") auto
    qed
  qed
qed

lemma ObjectIDFromHex_wellformed:
  "\<not> isl (ObjectIDFromHex s) \<longleftrightarrow> length s = 24 \<and> list_all (\<lambda>c. fromHexChar c \<noteq> None) s"
proof -
  have "\<not> isl (ObjectIDFromHex s) \<longleftrightarrow> length s = 24 \<and> \<not> isl (hex_Decode s)"
    by (auto simp: ObjectIDFromHex_def split: sum.splits)
  then show ?thesis
    by (auto simp: hex_Decode_digits)
qed

section \<open>The claims\<close>

text \<open>
  C5. An id that is not a well-formed store id (\<^verbatim>\<open>ObjectIDFromHex\<close> returns an error on
  it) gets status 400 from GET, PUT and DELETE on \<^verbatim>\<open>/measurements/{id}\<close>, whatever the
  environment, the body and the store are: the id is checked before the store is touched,
  so the answer is never 500 and the world is as before.
\<close>

theorem malformed_id_400:
  assumes "ObjectIDFromHex param_id = Inl err"
  shows "getMeasurement e param_id w = Returned (Reply 400 (H_error ''Invalid ID'')) w
       \<and> updateMeasurement e param_id bound w = Returned (Reply 400 (H_error ''Invalid ID'')) w
       \<and> deleteMeasurement e param_id w = Returned (Reply 400 (H_error ''Invalid ID'')) w"
  using assms by (simp add: getMeasurement_def updateMeasurement_def deleteMeasurement_def)

theorem malformed_id_400_witness:
  "ObjectIDFromHex ''not-an-object-id'' = Inl ErrInvalidHex
   \<and> getMeasurement e_unreachable ''not-an-object-id'' w_one = Returned (Reply 400 (H_error ''Invalid ID'')) w_one
   \<and> updateMeasurement e_unreachable ''not-an-object-id'' (Inr m_no_id) w_one = Returned (Reply 400 (H_error ''Invalid ID'')) w_one
   \<and> deleteMeasurement e_unreachable ''not-an-object-id'' w_one = Returned (Reply 400 (H_error ''Invalid ID'')) w_one"
proof -
  have h: "ObjectIDFromHex ''not-an-object-id'' = Inl ErrInvalidHex"
    by (simp add: ObjectIDFromHex_def)
  from malformed_id_400 [OF h, of e_unreachable w_one "Inr m_no_id"] h show ?thesis
    by simp
qed

text \<open>
  C6. For a well-formed id that no stored document has, with the store reachable and the
  lookup not failing for another reason, GET \<^verbatim>\<open>/measurements/{id}\<close> answers 404.
\<close>

theorem get_absent_404:
  assumes "connect_err e = None" and "ping_err e = None" and "op_err e = None"
    and "ObjectIDFromHex param_id = Inr oid" and "oid \<notin> ID ` set (docs w)"
  shows "getMeasurement e param_id w =
           Returned (Reply 404 Empty)
             (w\<lparr>clients := clients w + 1, logged := logged w @ [Log_measurement zero_Measurement]\<rparr>)"
proof -
  from assms(5) have "find (\<lambda>d. ID d = oid) (docs w) = None"
    using has_id_iff [of oid "docs w"] by (simp add: has_id_def)
  with assms(1-4) show ?thesis
    by (simp add: getMeasurement_def getMongoCollection_ok FindOne_def)
qed

theorem get_absent_404_witness:
  "ObjectIDFromHex hex_a = Inr oid_a \<and> oid_a \<notin> ID ` set (docs w_one)
   \<and> getMeasurement e_ok hex_a w_one =
       Returned (Reply 404 Empty)
         (w_one\<lparr>clients := 1, logged := [Log_measurement zero_Measurement]\<rparr>)"
proof -
  have a: "oid_a \<notin> ID ` set (docs w_one)"
    by (simp add: oid_a_def w_one_def)
  have c: "connect_err e_ok = None" "ping_err e_ok = None" "op_err e_ok = None"
    by (simp_all add: e_ok_def)
  from get_absent_404 [OF c hex_a_decodes a] a hex_a_decodes show ?thesis
    by (simp add: w_one_def)
qed

text \<open>
  C3. For a well-formed id that no stored document has, with the store reachable and the
  operation not failing, PUT with a body that binds and DELETE both answer 200, and the
  stored collection is what it was.
\<close>

theorem absent_update_delete:
  assumes "connect_err e = None" and "ping_err e = None" and "op_err e = None"
    and "ObjectIDFromHex param_id = Inr oid" and "oid \<notin> ID ` set (docs w)"
  shows "updateMeasurement e param_id (Inr m) w = Returned (Reply 200 Empty) (w\<lparr>clients := clients w + 1\<rparr>)
       \<and> deleteMeasurement e param_id w = Returned (Reply 200 Empty) (w\<lparr>clients := clients w + 1\<rparr>)
       \<and> docs (w\<lparr>clients := clients w + 1\<rparr>) = docs w"
  using assms
  by (simp add: updateMeasurement_def deleteMeasurement_def getMongoCollection_ok
      ReplaceOne_def DeleteOne_def has_id_iff)

theorem absent_update_delete_witness:
  "ObjectIDFromHex hex_a = Inr oid_a \<and> oid_a \<notin> ID ` set (docs w_one)
   \<and> updateMeasurement e_ok hex_a (Inr m_with_id) w_one = Returned (Reply 200 Empty) (w_one\<lparr>clients := 1\<rparr>)
   \<and> deleteMeasurement e_ok hex_a w_one = Returned (Reply 200 Empty) (w_one\<lparr>clients := 1\<rparr>)
   \<and> docs (w_one\<lparr>clients := 1\<rparr>) = docs w_one"
proof -
  have a: "oid_a \<notin> ID ` set (docs w_one)"
    by (simp add: oid_a_def w_one_def)
  have c: "connect_err e_ok = None" "ping_err e_ok = None" "op_err e_ok = None"
    by (simp_all add: e_ok_def)
  from absent_update_delete [OF c hex_a_decodes a, of m_with_id] a hex_a_decodes show ?thesis
    by (simp add: w_one_def)
qed

text \<open>
  C4. A delivered message whose payload decodes is stored as exactly one new document, with
  the payload's cpu and ram and with the time of receipt as its timestamp, whatever
  timestamp the payload carried. The store is reachable, the insert does not fail, and the
  document's id (a generated one, when the payload has none) is not in the collection yet.
\<close>

theorem message_stored:
  assumes "connect_err e = None" and "ping_err e = None" and "op_err e = None"
    and "insert_id e m \<notin> ID ` set (docs w)"
  shows "messageHandler e (Inr m) w =
           Returned ()
             (w\<lparr>clients := clients w + 1,
                docs := docs w @ [\<lparr>ID = insert_id e m, Timestamp = now e, CPU = CPU m, RAM = RAM m\<rparr>]\<rparr>)"
proof -
  let ?m = "m\<lparr>Timestamp := now e\<rparr>"
  have i: "insert_id e ?m = insert_id e m"
    by (simp add: insert_id_def)
  have d: "?m\<lparr>ID := insert_id e m\<rparr> = \<lparr>ID = insert_id e m, Timestamp = now e, CPU = CPU m, RAM = RAM m\<rparr>"
    by simp
  from assms i have "InsertOne e ?m (w\<lparr>clients := clients w + 1\<rparr>) =
      (Inr (insert_id e m), w\<lparr>clients := clients w + 1,
         docs := docs w @ [?m\<lparr>ID := insert_id e m\<rparr>]\<rparr>)"
    using InsertOne_fresh [of e ?m "w\<lparr>clients := clients w + 1\<rparr>"] by simp
  with assms(1,2) d show ?thesis
    by (simp add: messageHandler_def storeMQTTMeasurement_def getMongoCollection_ok)
qed

theorem message_stored_witness:
  "insert_id e_ok (m_no_id\<lparr>Timestamp := 42\<rparr>) \<notin> ID ` set (docs w_one)
   \<and> messageHandler e_ok (Inr (m_no_id\<lparr>Timestamp := 42\<rparr>)) w_one =
       Returned ()
         (w_one\<lparr>clients := 1,
            docs := docs w_one @ [\<lparr>ID = new_id e_ok, Timestamp = 1700000000,
                                   CPU = 0x4024000000000000, RAM = 0x4034000000000000\<rparr>]\<rparr>)"
proof -
  have a: "insert_id e_ok (m_no_id\<lparr>Timestamp := 42\<rparr>) \<notin> ID ` set (docs w_one)"
    by (simp add: insert_id_def m_no_id_def e_ok_def w_one_def)
  have c: "connect_err e_ok = None" "ping_err e_ok = None" "op_err e_ok = None"
    by (simp_all add: e_ok_def)
  have n: "insert_id e_ok (m_no_id\<lparr>Timestamp := 42\<rparr>) = new_id e_ok" "now e_ok = 1700000000"
    by (simp_all add: insert_id_def m_no_id_def e_ok_def)
  from message_stored [OF c a] a n show ?thesis
    by (simp add: w_one_def m_no_id_def)
qed

text \<open>
  C7. A delivered message whose payload does not decode is logged and dropped: the handler
  returns, the stored collection is what it was, and the messages after it are handled as
  they would have been.
\<close>

theorem undecodable_dropped:
  "messageHandler e (Inl err) w =
     Returned () (w\<lparr>logged := logged w @ [Log_error ''Error parsing JSON: '' err]\<rparr>)
   \<and> docs (w\<lparr>logged := logged w @ [Log_error ''Error parsing JSON: '' err]\<rparr>) = docs w
   \<and> deliver ((e, Inl err) # msgs) w =
       deliver msgs (w\<lparr>logged := logged w @ [Log_error ''Error parsing JSON: '' err]\<rparr>)"
  by (simp add: messageHandler_def)

theorem undecodable_dropped_witness:
  "deliver [(e_unreachable, Inl (Failure ''unexpected end of JSON input'')), (e_ok, Inr m_no_id)] w_empty =
     Returned ()
       \<lparr>docs = [\<lparr>ID = new_id e_ok, Timestamp = 1700000000,
                 CPU = 0x4024000000000000, RAM = 0x4034000000000000\<rparr>],
        clients = 1,
        logged = [Log_error ''Error parsing JSON: '' (Failure ''unexpected end of JSON input'')]\<rparr>"
proof -
  have "deliver [(e_ok, Inr m_no_id)]
          (w_empty\<lparr>logged := logged w_empty @
             [Log_error ''Error parsing JSON: '' (Failure ''unexpected end of JSON input'')]\<rparr>) =
        Returned ()
          \<lparr>docs = [\<lparr>ID = new_id e_ok, Timestamp = 1700000000,
                    CPU = 0x4024000000000000, RAM = 0x4034000000000000\<rparr>],
           clients = 1,
           logged = [Log_error ''Error parsing JSON: '' (Failure ''unexpected end of JSON input'')]\<rparr>"
    by (simp add: messageHandler_def storeMQTTMeasurement_def getMongoCollection_def InsertOne_def
        insert_id_def has_id_def e_ok_def m_no_id_def w_empty_def)
  with undecodable_dropped [of e_unreachable "Failure ''unexpected end of JSON input''" w_empty
      "[(e_ok, Inr m_no_id)]"]
  show ?thesis by simp
qed

text \<open>
  C1, amended. Once \<^verbatim>\<open>getMongoCollection\<close> has returned the collection (connect and ping
  succeeded), create, get-by-id, update and delete always return a response, and an error
  of the collection operation is answered with status 500 (404 when it is
  \<^verbatim>\<open>ErrNoDocuments\<close>, in get-by-id); list answers 500 when connecting, finding or decoding
  fails, if disconnecting succeeds. A connect or ping failure in create, get-by-id, update
  and delete, and a disconnect failure in list, end the process in \<^verbatim>\<open>log.Fatal\<close>: no
  status is returned.
\<close>

theorem store_errors_in_handlers:
  "(connect_err e = None \<and> ping_err e = None \<and> op_err e = Some err \<and> ObjectIDFromHex param_id = Inr oid \<longrightarrow>
      status_of (createMeasurement e (Inr m) w) = Some 500
    \<and> status_of (getMeasurement e param_id w) = Some (if err = ErrNoDocuments then 404 else 500)
    \<and> status_of (updateMeasurement e param_id (Inr m) w) = Some 500
    \<and> status_of (deleteMeasurement e param_id w) = Some 500)
   \<and> (connect_err e = None \<and> ping_err e = None \<longrightarrow>
      status_of (createMeasurement e bound w) \<noteq> None
    \<and> status_of (getMeasurement e param_id w) \<noteq> None
    \<and> status_of (updateMeasurement e param_id bound w) \<noteq> None
    \<and> status_of (deleteMeasurement e param_id w) \<noteq> None)
   \<and> (disconnect_err e = None \<and> (connect_err e \<noteq> None \<or> op_err e \<noteq> None \<or> all_err e \<noteq> None) \<longrightarrow>
      status_of (getMeasurements e w) = Some 500)
   \<and> ((connect_err e \<noteq> None \<or> ping_err e \<noteq> None) \<and> ObjectIDFromHex param_id = Inr oid \<longrightarrow>
      status_of (createMeasurement e (Inr m) w) = None
    \<and> status_of (getMeasurement e param_id w) = None
    \<and> status_of (updateMeasurement e param_id bound w) = None
    \<and> status_of (deleteMeasurement e param_id w) = None)
   \<and> (connect_err e = None \<and> disconnect_err e \<noteq> None \<longrightarrow>
      status_of (getMeasurements e w) = None)"
proof (intro conjI impI)
  assume h: "connect_err e = None \<and> ping_err e = None \<and> op_err e = Some err \<and> ObjectIDFromHex param_id = Inr oid"
  then show "status_of (createMeasurement e (Inr m) w) = Some 500"
    by (simp add: createMeasurement_def getMongoCollection_ok InsertOne_def)
  from h show "status_of (getMeasurement e param_id w) = Some (if err = ErrNoDocuments then 404 else 500)"
    by (simp add: getMeasurement_def getMongoCollection_ok FindOne_def)
  from h show "status_of (updateMeasurement e param_id (Inr m) w) = Some 500"
    by (simp add: updateMeasurement_def getMongoCollection_ok ReplaceOne_def)
  from h show "status_of (deleteMeasurement e param_id w) = Some 500"
    by (simp add: deleteMeasurement_def getMongoCollection_ok DeleteOne_def)
next
  assume h: "connect_err e = None \<and> ping_err e = None"
  then show "status_of (createMeasurement e bound w) \<noteq> None"
    by (simp add: createMeasurement_def getMongoCollection_ok InsertOne_def split: sum.splits option.splits)
  from h show "status_of (getMeasurement e param_id w) \<noteq> None"
    by (simp add: getMeasurement_def getMongoCollection_ok FindOne_def Let_def split: sum.splits option.splits)
  from h show "status_of (updateMeasurement e param_id bound w) \<noteq> None"
    by (simp add: updateMeasurement_def getMongoCollection_ok ReplaceOne_def split: sum.splits option.splits)
  from h show "status_of (deleteMeasurement e param_id w) \<noteq> None"
    by (simp add: deleteMeasurement_def getMongoCollection_ok DeleteOne_def split: sum.splits option.splits)
next
  assume "disconnect_err e = None \<and> (connect_err e \<noteq> None \<or> op_err e \<noteq> None \<or> all_err e \<noteq> None)"
  then show "status_of (getMeasurements e w) = Some 500"
    by (auto simp: getMeasurements_def Find_def Cursor_All_def Let_def split: option.splits)
next
  assume h: "(connect_err e \<noteq> None \<or> ping_err e \<noteq> None) \<and> ObjectIDFromHex param_id = Inr oid"
  then obtain err w1 where g: "getMongoCollection e w = (Inl err, w1)"
    using getMongoCollection_fails [of e w] by blast
  then show "status_of (createMeasurement e (Inr m) w) = None"
    by (simp add: createMeasurement_def)
  from h g show "status_of (getMeasurement e param_id w) = None"
    by (simp add: getMeasurement_def)
  from h g show "status_of (updateMeasurement e param_id bound w) = None"
    by (simp add: updateMeasurement_def)
  from h g show "status_of (deleteMeasurement e param_id w) = None"
    by (simp add: deleteMeasurement_def)
next
  assume "connect_err e = None \<and> disconnect_err e \<noteq> None"
  then show "status_of (getMeasurements e w) = None"
    by (auto simp: getMeasurements_def Let_def split: option.splits)
qed

theorem store_errors_in_handlers_witness:
  "status_of (createMeasurement e_op_fails (Inr m_no_id) w_one) = Some 500
   \<and> status_of (getMeasurement e_op_fails hex_a w_one) = Some 500
   \<and> status_of (updateMeasurement e_op_fails hex_a (Inr m_no_id) w_one) = Some 500
   \<and> status_of (deleteMeasurement e_op_fails hex_a w_one) = Some 500
   \<and> status_of (getMeasurements e_op_fails w_one) = Some 500
   \<and> status_of (createMeasurement e_unreachable (Inr m_no_id) w_one) = None
   \<and> status_of (getMeasurement e_unreachable hex_a w_one) = None
   \<and> status_of (updateMeasurement e_unreachable hex_a (Inr m_no_id) w_one) = None
   \<and> status_of (deleteMeasurement e_unreachable hex_a w_one) = None
   \<and> status_of (getMeasurements e_disconnect_fails w_one) = None"
proof -
  have a: "connect_err e_op_fails = None" "ping_err e_op_fails = None"
    "op_err e_op_fails = Some (Failure ''connection reset by peer'')" "disconnect_err e_op_fails = None"
    by (simp_all add: e_op_fails_def e_ok_def)
  have b: "ping_err e_unreachable \<noteq> None"
    by (simp add: e_unreachable_def)
  have c: "connect_err e_disconnect_fails = None" "disconnect_err e_disconnect_fails \<noteq> None"
    by (simp_all add: e_disconnect_fails_def e_ok_def)
  from store_errors_in_handlers [of e_op_fails "Failure ''connection reset by peer''" hex_a oid_a m_no_id w_one "Inr m_no_id"]
    store_errors_in_handlers [of e_unreachable "Failure ''x''" hex_a oid_a m_no_id w_one "Inr m_no_id"]
    store_errors_in_handlers [of e_disconnect_fails "Failure ''x''" hex_a oid_a m_no_id w_one "Inr m_no_id"]
    a b c hex_a_decodes
  show ?thesis by simp
qed

text \<open>
  As C1 is written it fails: when the server does not answer the ping, POST
  \<^verbatim>\<open>/measurements\<close> with a body that binds ends in \<^verbatim>\<open>log.Fatal\<close> (line 124), and no
  status is returned.
\<close>

theorem create_exits_when_unreachable:
  "createMeasurement e_unreachable (Inr m_no_id) w_empty
     = Exited (Failure ''server selection error'') None
   \<and> status_of (createMeasurement e_unreachable (Inr m_no_id) w_empty) = None"
  by (simp add: createMeasurement_def getMongoCollection_def e_unreachable_def e_ok_def)

text \<open>
  C2, amended. With the store reachable and the insert not failing, POST
  \<^verbatim>\<open>/measurements\<close> with a body that binds stores the document under a newly generated
  id when the body's ID is absent (zero), and under the body's own ID when it has one that
  is not in the collection; the answer is 201 in both cases.
\<close>

theorem create_assigns_or_keeps_id:
  assumes "connect_err e = None" and "ping_err e = None" and "op_err e = None"
  shows "(ID m = NilObjectID \<and> new_id e \<notin> ID ` set (docs w) \<longrightarrow>
            createMeasurement e (Inr m) w =
              Returned (Reply 201 Empty)
                (w\<lparr>clients := clients w + 1, docs := docs w @ [m\<lparr>ID := new_id e\<rparr>]\<rparr>))
       \<and> (ID m \<noteq> NilObjectID \<and> ID m \<notin> ID ` set (docs w) \<longrightarrow>
            createMeasurement e (Inr m) w =
              Returned (Reply 201 Empty)
                (w\<lparr>clients := clients w + 1, docs := docs w @ [m]\<rparr>))"
  using assms InsertOne_fresh [of e m "w\<lparr>clients := clients w + 1\<rparr>"]
  by (simp add: createMeasurement_def getMongoCollection_ok insert_id_def)

theorem create_assigns_or_keeps_id_witness:
  "createMeasurement e_ok (Inr m_no_id) w_one =
     Returned (Reply 201 Empty)
       (w_one\<lparr>clients := 1, docs := docs w_one @ [m_no_id\<lparr>ID := new_id e_ok\<rparr>]\<rparr>)
   \<and> createMeasurement e_ok (Inr m_with_id) w_one =
     Returned (Reply 201 Empty)
       (w_one\<lparr>clients := 1, docs := docs w_one @ [m_with_id]\<rparr>)"
proof -
  have c: "connect_err e_ok = None" "ping_err e_ok = None" "op_err e_ok = None"
    by (simp_all add: e_ok_def)
  have a: "ID m_no_id = NilObjectID" "new_id e_ok \<notin> ID ` set (docs w_one)"
    "ID m_with_id \<noteq> NilObjectID" "ID m_with_id \<notin> ID ` set (docs w_one)" "clients w_one = 0"
    by (simp_all add: m_no_id_def m_with_id_def oid_a_def e_ok_def w_one_def NilObjectID_def)
  from create_assigns_or_keeps_id [OF c, of m_no_id w_one]
    create_assigns_or_keeps_id [OF c, of m_with_id w_one] a
  show ?thesis by simp
qed

text \<open>
  As C2 is written it fails: on an empty, reachable store a body that binds with a non-zero
  ID is stored under that ID, not under the id the driver would have generated.
\<close>

theorem create_stores_body_id:
  "createMeasurement e_ok (Inr m_with_id) w_empty =
     Returned (Reply 201 Empty) \<lparr>docs = [m_with_id], clients = 1, logged = []\<rparr>
   \<and> ID m_with_id = oid_a \<and> oid_a \<noteq> new_id e_ok \<and> oid_a \<noteq> NilObjectID"
  by (simp add: createMeasurement_def getMongoCollection_def InsertOne_def insert_id_def has_id_def
      e_ok_def m_with_id_def m_no_id_def oid_a_def w_empty_def NilObjectID_def)

text \<open>
  C8. Every store operation connects a client of its own, but only \<^verbatim>\<open>getMeasurements\<close>
  disconnects it. After one successful run of create, get-by-id, update, delete or
  \<^verbatim>\<open>storeMQTTMeasurement\<close> from a world with no connected client, one client is still
  connected; after the list handler none is.
\<close>

theorem connection_left_open:
  "map_option clients (world_of (createMeasurement e_ok (Inr m_no_id) w_empty)) = Some 1
   \<and> map_option clients (world_of (getMeasurement e_ok hex_a w_empty)) = Some 1
   \<and> map_option clients (world_of (updateMeasurement e_ok hex_a (Inr m_no_id) w_empty)) = Some 1
   \<and> map_option clients (world_of (deleteMeasurement e_ok hex_a w_empty)) = Some 1
   \<and> map_option clients (world_of (storeMQTTMeasurement e_ok m_no_id w_empty)) = Some 1
   \<and> map_option clients (world_of (getMeasurements e_ok w_empty)) = Some 0
   \<and> clients w_empty = 0"
proof -
  have c: "connect_err e_ok = None" "ping_err e_ok = None" "op_err e_ok = None"
    "all_err e_ok = None" "disconnect_err e_ok = None"
    by (simp_all add: e_ok_def)
  have w: "docs w_empty = []" "clients w_empty = 0"
    by (simp_all add: w_empty_def)
  from c w hex_a_decodes show ?thesis
    by (simp add: createMeasurement_def getMeasurement_def updateMeasurement_def
        deleteMeasurement_def storeMQTTMeasurement_def getMeasurements_def getMongoCollection_ok
        InsertOne_def FindOne_def ReplaceOne_def DeleteOne_def Find_def Cursor_All_def has_id_def)
qed

text \<open>
  C9, amended. With the store reachable and nothing failing, GET \<^verbatim>\<open>/measurements\<close>
  answers 200 and leaves the world as it was; the body is the JSON array of exactly the
  stored documents when there is at least one, and \<^verbatim>\<open>null\<close> when the collection is
  empty.
\<close>

theorem list_returns_stored_documents:
  assumes "connect_err e = None" and "op_err e = None" and "all_err e = None"
    and "disconnect_err e = None"
  shows "getMeasurements e w =
           Returned (Reply 200 (if docs w = [] then JSON_null else JSON_array (docs w))) w"
  using assms by (simp add: getMeasurements_def Find_def Cursor_All_def)

theorem list_returns_stored_documents_witness:
  "getMeasurements e_ok w_one = Returned (Reply 200 (JSON_array (docs w_one))) w_one
   \<and> getMeasurements e_ok w_empty = Returned (Reply 200 JSON_null) w_empty"
proof -
  have c: "connect_err e_ok = None" "op_err e_ok = None" "all_err e_ok = None"
    "disconnect_err e_ok = None"
    by (simp_all add: e_ok_def)
  have d: "docs w_one \<noteq> []" "docs w_empty = []"
    by (simp_all add: w_one_def w_empty_def)
  from list_returns_stored_documents [OF c, of w_one]
    list_returns_stored_documents [OF c, of w_empty] d
  show ?thesis by simp
qed

text \<open>
  As C9 is written it fails: for an empty store the slice is still nil when it is rendered,
  and the body is \<^verbatim>\<open>null\<close>, not an empty array.
\<close>

theorem list_empty_is_null:
  "getMeasurements e_ok w_empty = Returned (Reply 200 JSON_null) w_empty
   \<and> docs w_empty = [] \<and> JSON_null \<noteq> JSON_array []"
  by (simp add: getMeasurements_def Find_def Cursor_All_def e_ok_def w_empty_def)



end
